theory Spec2Isabelle
  imports Complex_Main
begin

section \<open>Kineto: the search page's orchestration and result composition\<close>

text \<open>
  A shallow embedding of \<^verbatim>\<open>streamlit_app.py\<close>: the helper \<^verbatim>\<open>validate_email\<close>, the
  signup form's validation chain, \<^verbatim>\<open>get_movie_details\<close> with its inner \<^verbatim>\<open>safe_get\<close>,
  and the parts of \<^verbatim>\<open>page_search\<close> that read and write the session state.

  Python strings are \<^typ>\<open>string\<close>: a character stands for one code point below 256,
  so \<^const>\<open>length\<close> is Python's \<^verbatim>\<open>len\<close> on such strings.
\<close>

subsection \<open>Python values and exceptions\<close>

text \<open>
  The engine's result is duck-typed: the page probes it with \<^verbatim>\<open>hasattr\<close> and tests
  the attribute's truth value. An attribute is absent, holds \<^verbatim>\<open>None\<close>, or holds a value.
\<close>

datatype 'a attr = Absent | IsNone | Val 'a

definition hasattr :: "'a attr \<Rightarrow> bool" where
  "hasattr a = (a \<noteq> Absent)"

text \<open>Truth value of a sequence-valued attribute: \<^verbatim>\<open>None\<close> and the empty list are falsy.\<close>

fun truthy_list :: "'a list attr \<Rightarrow> bool" where
  "truthy_list (Val xs) = (xs \<noteq> [])"
| "truthy_list IsNone = False"
| "truthy_list Absent = False"

fun truthy_bool :: "bool attr \<Rightarrow> bool" where
  "truthy_bool (Val b) = b"
| "truthy_bool IsNone = False"
| "truthy_bool Absent = False"

text \<open>
  The exceptions the modelled code can raise. \<open>EngineError msg\<close> is whatever
  \<^verbatim>\<open>Exception\<close> the engine's \<^verbatim>\<open>recommend\<close> raises, with its message; \<open>ReError msg\<close>
  is \<^verbatim>\<open>re.error\<close>, raised for a malformed regular expression. \<open>exc_str\<close> is \<^verbatim>\<open>str(e)\<close>; the
  texts of the two built-in errors are shortened, and no property depends on them.
\<close>

datatype py_error = AttributeError | TypeError | ReError string | EngineError string

fun exc_str :: "py_error \<Rightarrow> string" where
  "exc_str AttributeError = ''object has no attribute''"
| "exc_str TypeError = ''object is not subscriptable''"
| "exc_str (ReError msg) = msg"
| "exc_str (EngineError msg) = msg"

text \<open>\<^verbatim>\<open>xs[:n]\<close>: the first \<open>n\<close> elements; a negative \<open>n\<close> counts from the end.\<close>

definition py_slice_to :: "'a list \<Rightarrow> int \<Rightarrow> 'a list" where
  "py_slice_to xs n =
     (if 0 \<le> n then take (nat n) xs else take (length xs - nat (- n)) xs)"

text \<open>\<^verbatim>\<open>enumerate(xs, start)\<close>.\<close>

fun enumerate_py :: "'a list \<Rightarrow> int \<Rightarrow> (int \<times> 'a) list" where
  "enumerate_py [] start = []"
| "enumerate_py (x # xs) start = (start, x) # enumerate_py xs (start + 1)"

subsection \<open>The engine's result\<close>

record movie =
  movie_title :: string
  final_score :: real
  year :: "int option"
  overview :: "string option"

record result =
  recommendations :: "movie list attr"
  dual_track_mode :: "bool attr"
  entity_track :: "movie list attr"
  mood_track :: "movie list attr"

subsection \<open>Building the movie list for the dropdown (\<^verbatim>\<open>page_search\<close>, on search)\<close>

text \<open>
  \<^verbatim>\<open>is_dual = (hasattr(result, 'dual_track_mode') and result.dual_track_mode and
             hasattr(result, 'entity_track') and result.entity_track and
             hasattr(result, 'mood_track') and result.mood_track)\<close>
\<close>

definition is_dual :: "result \<Rightarrow> bool" where
  "is_dual r =
     (hasattr (dual_track_mode r) \<and> truthy_bool (dual_track_mode r) \<and>
      hasattr (entity_track r) \<and> truthy_list (entity_track r) \<and>
      hasattr (mood_track r) \<and> truthy_list (mood_track r))"

text \<open>Reading an attribute and slicing it: a missing attribute and \<^verbatim>\<open>None[:n]\<close> raise.\<close>

fun slice_attr :: "'a list attr \<Rightarrow> int \<Rightarrow> py_error + 'a list" where
  "slice_attr Absent n = Inl AttributeError"
| "slice_attr IsNone n = Inl TypeError"
| "slice_attr (Val xs) n = Inr (py_slice_to xs n)"

text \<open>One loop \<^verbatim>\<open>for i, m in enumerate(ms, start): all_movies.append((i, m.movie_title, m))\<close>.\<close>

definition append_ranked :: "movie list \<Rightarrow> int \<Rightarrow> (int \<times> string \<times> movie) list" where
  "append_ranked ms start = map (\<lambda>(i, m). (i, movie_title m, m)) (enumerate_py ms start)"

definition build_all_movies :: "result \<Rightarrow> int \<Rightarrow> py_error + (int \<times> string \<times> movie) list" where
  "build_all_movies r topn =
     (if is_dual r then
        (case slice_attr (entity_track r) topn of
           Inl e \<Rightarrow> Inl e
         | Inr es \<Rightarrow>
             (let start_idx = int (length es) + 1 in
              case slice_attr (mood_track r) topn of
                Inl e \<Rightarrow> Inl e
              | Inr ms \<Rightarrow> Inr (append_ranked es 1 @ append_ranked ms start_idx)))
      else
        (case slice_attr (recommendations r) topn of
           Inl e \<Rightarrow> Inl e
         | Inr rs \<Rightarrow> Inr (append_ranked rs 1)))"

subsection \<open>Session state\<close>

text \<open>
  \<^verbatim>\<open>st.session_state\<close>. The keys \<^verbatim>\<open>query_input\<close>, \<^verbatim>\<open>search_time\<close> and \<^verbatim>\<open>top_n\<close> are not
  among the defaults of \<^verbatim>\<open>init_session_state\<close>: they are absent (\<open>None\<close>) until written.
  \<open>search_results = None\<close> is Python's \<^verbatim>\<open>None\<close>.
\<close>

record session =
  page :: string
  search_results :: "result option"
  all_movies_list :: "(int \<times> string \<times> movie) list"
  last_query :: string
  user_info :: "string \<rightharpoonup> string"
  logged_in :: bool
  appearance :: string
  query_input :: "string option"
  search_time :: "real option"
  top_n :: "int option"

definition init_session_state :: session where
  "init_session_state =
     \<lparr> page = ''welcome'', search_results = None, all_movies_list = [],
       last_query = [], user_info = Map.empty, logged_in = False,
       appearance = ''dark'', query_input = None, search_time = None, top_n = None \<rparr>"

text \<open>\<^verbatim>\<open>navigate_to(page)\<close>: set the page, then rerun.\<close>

definition navigate_to :: "string \<Rightarrow> session \<Rightarrow> session" where
  "navigate_to p s = s\<lparr>page := p\<rparr>"

text \<open>A sidebar example-query button, clicked (lines 557-561).\<close>

definition click_example :: "string \<Rightarrow> session \<Rightarrow> session" where
  "click_example eq s = s\<lparr>query_input := Some eq, search_results := None, all_movies_list := []\<rparr>"

text \<open>The Random button, clicked, with the query \<^verbatim>\<open>random.choice\<close> drew (lines 592-598).\<close>

definition click_random :: "string \<Rightarrow> session \<Rightarrow> session" where
  "click_random query s = s\<lparr>query_input := Some query, search_results := None, all_movies_list := []\<rparr>"

text \<open>
  The Log Out button, clicked (lines 569-574):
  \<^verbatim>\<open>logged_in = False; user_info = {}; page = 'welcome'; search_results = None; st.rerun()\<close>.
\<close>

definition click_logout :: "session \<Rightarrow> session" where
  "click_logout s =
     s\<lparr>logged_in := False, user_info := Map.empty, page := ''welcome'', search_results := None\<rparr>"

subsection \<open>Catalog cells\<close>

text \<open>
  What a cell of the catalog holds: \<^verbatim>\<open>None\<close>; a float, which is a NaN or a number (\<open>PFloat\<close>:
  an instance of Python's \<^verbatim>\<open>float\<close>, as numpy's \<^verbatim>\<open>float64\<close> is); a numpy \<^verbatim>\<open>float32\<close>
  (\<open>PFloat32\<close>: a float that is not an instance of Python's \<^verbatim>\<open>float\<close>); pandas' missing-value
  markers \<^verbatim>\<open>pd.NA\<close> and \<^verbatim>\<open>pd.NaT\<close>; an int, a string, a list or a tuple.
\<close>

datatype pyfloat = FNaN | FNum real

datatype pyval =
    PNone
  | PFloat pyfloat
  | PFloat32 pyfloat
  | PNA
  | PNaT
  | PInt int
  | PStr string
  | PList "pyval list"
  | PTuple "pyval list"

subsection \<open>What the page renders\<close>

text \<open>
  An entry of the dropdown: the placeholder \<^verbatim>\<open>"Select a movie..."\<close>, or \<^verbatim>\<open>f"{idx}. {title}"\<close>.
\<close>

datatype menu_option = Placeholder | MovieOption int string

text \<open>
  The calls on \<^verbatim>\<open>st\<close> that the modelled code makes. \<open>StCode e\<close> is
  \<^verbatim>\<open>st.code(traceback.format_exc())\<close> for the exception \<open>e\<close>; \<open>StSuccess t q\<close> is the
  "Found movies in t s for q" banner; \<open>MovieRow i m\<close> is \<^verbatim>\<open>display_movie_row(m, i)\<close>;
  \<open>TopHeader k\<close> is the "Top k Recommendations" heading; \<open>Details d\<close> is
  \<^verbatim>\<open>display_movie_details(d)\<close>.
\<close>

datatype ui =
    StError string
  | StCode py_error
  | StSuccess real string
  | StWarning string
  | StInfo string
  | DualHeader
  | EntityHeader
  | MoodHeader
  | TopHeader int
  | MovieRow int movie
  | Rule
  | Selectbox "menu_option list"
  | Details "string \<rightharpoonup> pyval"

subsection \<open>The search action (\<^verbatim>\<open>page_search\<close>, lines 604-641)\<close>

text \<open>
  The engine is an opaque collaborator: \<open>recommend\<close> returns a result or raises, and
  \<open>movies\<close> is its catalog, a data frame read row by row (a row maps a column name to
  its cell).
\<close>

type_synonym row = "string \<rightharpoonup> pyval"

record recommender =
  movies :: "row list"
  recommend :: "string \<Rightarrow> string \<Rightarrow> int \<Rightarrow> py_error + result"

text \<open>\<^verbatim>\<open>except Exception as e: st.error(f"Error: {str(e)}"); st.code(traceback.format_exc())\<close>\<close>

definition except_handler :: "py_error \<Rightarrow> ui list" where
  "except_handler e = [StError (''Error: '' @ exc_str e), StCode e]"

text \<open>
  \<open>elapsed\<close> is the wall-clock time the call took. The four session writes come before
  the list is built, so an exception raised while building leaves them in place.
\<close>

definition run_search ::
  "recommender \<Rightarrow> real \<Rightarrow> bool \<Rightarrow> string \<Rightarrow> string \<Rightarrow> int \<Rightarrow> session \<Rightarrow> session \<times> ui list" where
  "run_search rec elapsed search_clicked query preference_mode topn s =
     (if search_clicked \<and> query \<noteq> [] then
        (case recommend rec query preference_mode topn of
           Inl e \<Rightarrow> (s, except_handler e)
         | Inr res \<Rightarrow>
             (let s1 = s\<lparr>search_results := Some res, last_query := query,
                          search_time := Some elapsed, top_n := Some topn\<rparr>
              in case build_all_movies res topn of
                   Inl e \<Rightarrow> (s1, except_handler e)
                 | Inr all_movies \<Rightarrow> (s1\<lparr>all_movies_list := all_movies\<rparr>, [])))
      else (s, []))"

subsection \<open>\<^verbatim>\<open>validate_email\<close>\<close>

text \<open>
  \<^verbatim>\<open>pattern = r'^[a-zA-Z0-9._%+-]+@[a-zA-Z0-9.-]+\.[a-zA-Z]{2,}$'\<close>,
  \<^verbatim>\<open>return re.match(pattern, email) is not None\<close>.

  The pattern is a sequence of items, each a literal character or a character class
  repeated at least \<open>k\<close> times, closed by \<^verbatim>\<open>$\<close>. \<^verbatim>\<open>re.match\<close> anchors at the start and
  backtracks over the lengths a repetition may take; without \<^verbatim>\<open>re.MULTILINE\<close>, \<^verbatim>\<open>$\<close>
  matches at the end of the string and just before a newline that ends the string.
\<close>

datatype regex_item = Lit char | AtLeast nat "char \<Rightarrow> bool"

definition in_range :: "char \<Rightarrow> char \<Rightarrow> char \<Rightarrow> bool" where
  "in_range lo hi c = ((of_char lo :: nat) \<le> of_char c \<and> (of_char c :: nat) \<le> of_char hi)"

definition is_alpha :: "char \<Rightarrow> bool" where
  "is_alpha c = (in_range CHR ''a'' CHR ''z'' c \<or> in_range CHR ''A'' CHR ''Z'' c)"

definition is_alnum :: "char \<Rightarrow> bool" where
  "is_alnum c = (is_alpha c \<or> in_range CHR ''0'' CHR ''9'' c)"

text \<open>\<^verbatim>\<open>[a-zA-Z0-9._%+-]\<close>\<close>

definition local_class :: "char \<Rightarrow> bool" where
  "local_class c = (is_alnum c \<or> c \<in> set ''._%+-'')"

text \<open>\<^verbatim>\<open>[a-zA-Z0-9.-]\<close>\<close>

definition domain_class :: "char \<Rightarrow> bool" where
  "domain_class c = (is_alnum c \<or> c \<in> set ''.-'')"

definition end_anchor :: "string \<Rightarrow> bool" where
  "end_anchor s = (s = [] \<or> s = [CHR 0x0A])"

text \<open>
  Whether some way of matching the items at the start of \<open>s\<close> ends where \<^verbatim>\<open>$\<close> matches.
  A repetition may take any \<open>k\<close> characters of its class, from its minimum up to the
  longest run of the class at that point.
\<close>

fun match_items :: "regex_item list \<Rightarrow> string \<Rightarrow> bool" where
  "match_items [] s = end_anchor s"
| "match_items (Lit c # items) s =
     (case s of [] \<Rightarrow> False | x # xs \<Rightarrow> x = c \<and> match_items items xs)"
| "match_items (AtLeast k cls # items) s =
     list_ex (\<lambda>n. match_items items (drop n s)) [k ..< Suc (length (takeWhile cls s))]"

definition pattern :: "regex_item list" where
  "pattern =
     [AtLeast 1 local_class, Lit CHR ''@'', AtLeast 1 domain_class, Lit CHR ''.'',
      AtLeast 2 is_alpha]"

definition validate_email :: "string \<Rightarrow> bool" where
  "validate_email email = match_items pattern email"

subsection \<open>The signup and login forms (\<^verbatim>\<open>page_signup\<close>, \<^verbatim>\<open>page_login\<close>)\<close>

text \<open>
  The \<^verbatim>\<open>if/elif/elif\<close> chain that sets \<^verbatim>\<open>error_msg\<close>; a string is truthy when it is not
  empty.
\<close>

definition signup_error_msg :: "string \<Rightarrow> string \<Rightarrow> string \<Rightarrow> string option" where
  "signup_error_msg email password verify_password =
     (if email \<noteq> [] \<and> \<not> validate_email email then
        Some ''Please enter a valid email address.''
      else if password \<noteq> [] \<and> verify_password \<noteq> [] \<and> password \<noteq> verify_password then
        Some ''Passwords do not match.''
      else if password \<noteq> [] \<and> length password < 6 then
        Some ''Password must be at least 6 characters.''
      else None)"

text \<open>\<^verbatim>\<open>can_create = email and password and verify_password and not error_msg\<close>\<close>

definition can_create :: "string \<Rightarrow> string \<Rightarrow> string \<Rightarrow> bool" where
  "can_create email password verify_password =
     (email \<noteq> [] \<and> password \<noteq> [] \<and> verify_password \<noteq> [] \<and>
      signup_error_msg email password verify_password = None)"

definition login_error_msg :: "string \<Rightarrow> string option" where
  "login_error_msg email =
     (if email \<noteq> [] \<and> \<not> validate_email email then
        Some ''Please enter a valid email address.''
      else None)"

subsection \<open>\<^verbatim>\<open>get_movie_details\<close>\<close>

text \<open>
  \<^verbatim>\<open>str.lower\<close> on code points below 256: the letters \<^verbatim>\<open>A-Z\<close> and the capital letters of
  the Latin-1 supplement (U+00C0 to U+00DE, but for the multiplication sign U+00D7) move
  up by 32; every other code point stays.
\<close>

definition lower_char :: "char \<Rightarrow> char" where
  "lower_char c =
     (let n = (of_char c :: nat)
      in if (65 \<le> n \<and> n \<le> 90) \<or> (192 \<le> n \<and> n \<le> 222 \<and> n \<noteq> 215)
         then char_of (n + 32) else c)"

definition lower :: "string \<Rightarrow> string" where
  "lower s = map lower_char s"

text \<open>
  \<^verbatim>\<open>movies_df['title'].str.lower()\<close>, one cell: a string is lowered, any other cell (a
  number, \<^verbatim>\<open>None\<close>, NaN, a list) becomes NaN, here \<open>None\<close>. The catalog is taken to have a
  \<^verbatim>\<open>title\<close> column that holds strings, as the engine's contract says. On a catalog without
  the column, or whose column holds no string, line 397 raises (\<^verbatim>\<open>KeyError\<close>, or the
  \<^verbatim>\<open>AttributeError\<close> of the \<^verbatim>\<open>.str\<close> accessor); here such a row only fails to match.
\<close>

definition title_lower :: "row \<Rightarrow> string option" where
  "title_lower r = (case r ''title'' of Some (PStr t) \<Rightarrow> Some (lower t) | _ \<Rightarrow> None)"

text \<open>
  \<^verbatim>\<open>Series.str.contains(pat, na=False)\<close> reads \<open>pat\<close> as a regular expression
  (\<^verbatim>\<open>regex=True\<close> is the default): pandas compiles it once, which raises on a malformed
  pattern, and then searches each cell. The regular expression library is a parameter of
  the model: \<open>re_compile pat\<close> is the search predicate of \<open>pat\<close>, or the error.
\<close>

type_synonym regex_lib = "string \<Rightarrow> py_error + (string \<Rightarrow> bool)"

definition str_contains :: "(string \<Rightarrow> bool) \<Rightarrow> row \<Rightarrow> bool" where
  "str_contains search r = (case title_lower r of None \<Rightarrow> False | Some t \<Rightarrow> search t)"

text \<open>\<^verbatim>\<open>pd.isna\<close> on a float.\<close>

fun isna :: "pyfloat \<Rightarrow> bool" where
  "isna FNaN = True"
| "isna (FNum x) = False"

text \<open>
  The inner \<^verbatim>\<open>safe_get(key, default)\<close>, closed over the matched row \<open>movie\<close>. The NaN test
  of lines 414-419 runs under \<^verbatim>\<open>isinstance(val, float)\<close> only, so a \<open>PFloat32\<close>, \<open>PNA\<close> or
  \<open>PNaT\<close> cell reaches the last line, \<^verbatim>\<open>return val\<close>.
\<close>

definition safe_get :: "row \<Rightarrow> string \<Rightarrow> pyval \<Rightarrow> pyval" where
  "safe_get movie key dflt =
     (let val = (case movie key of None \<Rightarrow> dflt | Some v \<Rightarrow> v)
      in case val of
           PNone \<Rightarrow> dflt
         | PList xs \<Rightarrow> if length xs > 0 then val else dflt
         | PTuple xs \<Rightarrow> if length xs > 0 then val else dflt
         | PFloat f \<Rightarrow> if isna f then dflt else val
         | _ \<Rightarrow> val)"

text \<open>The dictionary the function returns, for the matched row.\<close>

definition details_of :: "row \<Rightarrow> string \<Rightarrow> (string \<rightharpoonup> pyval)" where
  "details_of movie movie_title' =
     map_of
       [(''title'', safe_get movie ''title'' (PStr movie_title')),
        (''year'', safe_get movie ''year'' (PStr ''N/A'')),
        (''directors'', safe_get movie ''directors'' (PList [])),
        (''cast'', safe_get movie ''cast'' (PList [])),
        (''production_companies'', safe_get movie ''production_companies'' (PList [])),
        (''overview'', safe_get movie ''overview'' (PStr ''No overview available.'')),
        (''genres'', safe_get movie ''genres'' (PList [])),
        (''runtime'', safe_get movie ''runtime'' (PStr ''N/A'')),
        (''vote_average'', safe_get movie ''vote_average'' (PStr ''N/A''))]"

definition get_movie_details ::
  "regex_lib \<Rightarrow> recommender \<Rightarrow> string \<Rightarrow> py_error + (string \<rightharpoonup> pyval) option" where
  "get_movie_details re_compile rec movie_title' =
     (let movies_df = movies rec in
      case filter (\<lambda>r. title_lower r = Some (lower movie_title')) movies_df of
        movie # _ \<Rightarrow> Inr (Some (details_of movie movie_title'))
      | [] \<Rightarrow>
          (case re_compile (lower movie_title') of
             Inl e \<Rightarrow> Inl e
           | Inr search \<Rightarrow>
               (case filter (str_contains search) movies_df of
                  [] \<Rightarrow> Inr None
                | movie # _ \<Rightarrow> Inr (Some (details_of movie movie_title')))))"

subsection \<open>The display pass (\<^verbatim>\<open>page_search\<close>, lines 643-728)\<close>

text \<open>The test of lines 672-674, written out a second time by the source.\<close>

definition is_dual_track :: "result \<Rightarrow> bool" where
  "is_dual_track r =
     (hasattr (dual_track_mode r) \<and> truthy_bool (dual_track_mode r) \<and>
      hasattr (entity_track r) \<and> truthy_list (entity_track r) \<and>
      hasattr (mood_track r) \<and> truthy_list (mood_track r))"

text \<open>\<^verbatim>\<open>for i, movie in enumerate(ms, start): display_movie_row(movie, i)\<close>\<close>

definition movie_rows :: "movie list \<Rightarrow> int \<Rightarrow> ui list" where
  "movie_rows ms start = map (\<lambda>(i, m). MovieRow i m) (enumerate_py ms start)"

text \<open>
  Lines 676-699: the two panels, or the single list, each row of which is followed by a
  rule. The query-interpretation expander above them only prints and is left out.
\<close>

definition render_tracks :: "result \<Rightarrow> int \<Rightarrow> py_error + ui list" where
  "render_tracks r topn =
     (if is_dual_track r then
        (case slice_attr (entity_track r) topn of
           Inl e \<Rightarrow> Inl e
         | Inr es \<Rightarrow>
             (let start_idx = int (length es) + 1 in
              case slice_attr (mood_track r) topn of
                Inl e \<Rightarrow> Inl e
              | Inr ms \<Rightarrow>
                  Inr ([DualHeader, EntityHeader] @ movie_rows es 1 @
                       [MoodHeader] @ movie_rows ms start_idx)))
      else
        (case recommendations r of
           Absent \<Rightarrow> Inl AttributeError
         | IsNone \<Rightarrow> Inl TypeError
         | Val recs \<Rightarrow>
             Inr (TopHeader (min topn (int (length recs))) #
                  concat (map (\<lambda>row. [row, Rule]) (movie_rows (py_slice_to recs topn) 1)))))"

text \<open>\<^verbatim>\<open>["Select a movie..."] + [f"{idx}. {title}" for idx, title, _ in all_movies_list]\<close>\<close>

definition movie_options :: "(int \<times> string \<times> movie) list \<Rightarrow> menu_option list" where
  "movie_options all_movies = Placeholder # map (\<lambda>(idx, title, _). MovieOption idx title) all_movies"

text \<open>
  Lines 705-721. \<open>selected\<close> is the dropdown's value; splitting \<^verbatim>\<open>"{idx}. {title}"\<close> at
  its first \<^verbatim>\<open>". "\<close> gives the title back, since the digits of \<open>idx\<close> hold none.
\<close>

definition details_section ::
  "regex_lib \<Rightarrow> recommender \<Rightarrow> menu_option \<Rightarrow> session \<Rightarrow> py_error + ui list" where
  "details_section re_compile rec selected s =
     (if all_movies_list s \<noteq> [] then
        (case selected of
           Placeholder \<Rightarrow> Inr [Selectbox (movie_options (all_movies_list s))]
         | MovieOption idx selected_title \<Rightarrow>
             (case get_movie_details re_compile rec selected_title of
                Inl e \<Rightarrow> Inl e
              | Inr (Some details) \<Rightarrow>
                  Inr [Selectbox (movie_options (all_movies_list s)), Details details]
              | Inr None \<Rightarrow>
                  Inr [Selectbox (movie_options (all_movies_list s)),
                       StWarning (''Could not find details for '' @ selected_title)]))
      else Inr [])"

text \<open>
  An exception raised here is not caught: \<open>Inl e\<close> is the display pass failing with \<open>e\<close>.
\<close>

definition display_results ::
  "regex_lib \<Rightarrow> recommender \<Rightarrow> bool \<Rightarrow> menu_option \<Rightarrow> session \<Rightarrow> py_error + ui list" where
  "display_results re_compile rec search_clicked selected s =
     (case search_results s of
        Some res \<Rightarrow>
          (let topn = (case top_n s of Some n \<Rightarrow> n | None \<Rightarrow> 10) in
           case recommendations res of
             Absent \<Rightarrow> Inl AttributeError
           | recs \<Rightarrow>
               if truthy_list recs then
                 (case render_tracks res topn of
                    Inl e \<Rightarrow> Inl e
                  | Inr rows \<Rightarrow>
                      (case details_section re_compile rec selected s of
                         Inl e \<Rightarrow> Inl e
                       | Inr det \<Rightarrow>
                           Inr (StSuccess (case search_time s of Some t \<Rightarrow> t | None \<Rightarrow> 0)
                                  (last_query s) # rows @ det)))
               else
                 Inr [StWarning ''No movies found matching your query. Try a different search!''])
      | None \<Rightarrow>
          if \<not> search_clicked
          then Inr [StInfo ''Enter a query above and click Search to get movie recommendations!'']
          else Inr [])"

text \<open>One run of the page with no sidebar button pressed: the search action, then the display.\<close>

definition page_search ::
  "regex_lib \<Rightarrow> recommender \<Rightarrow> real \<Rightarrow> bool \<Rightarrow> string \<Rightarrow> string \<Rightarrow> int \<Rightarrow> menu_option \<Rightarrow>
   session \<Rightarrow> session \<times> (py_error + ui list)" where
  "page_search re_compile rec elapsed search_clicked query preference_mode topn selected s =
     (let (s', shown) = run_search rec elapsed search_clicked query preference_mode topn s
      in case display_results re_compile rec search_clicked selected s' of
           Inl e \<Rightarrow> (s', Inl e)
         | Inr out \<Rightarrow> (s', Inr (shown @ out)))"

subsection \<open>Auxiliary notions used to state the properties\<close>

text \<open>
  The spec's condition for the dual-track variant, in its own words: the flag is present
  and true, and both tracks are present and non-empty.
\<close>

definition spec_dual :: "result \<Rightarrow> bool" where
  "spec_dual r =
     (dual_track_mode r = Val True \<and>
      (case entity_track r of Val es \<Rightarrow> es \<noteq> [] | _ \<Rightarrow> False) \<and>
      (case mood_track r of Val ms \<Rightarrow> ms \<noteq> [] | _ \<Rightarrow> False))"

text \<open>A ranked entry \<^verbatim>\<open>(i, m.movie_title, m)\<close>.\<close>

definition entry :: "int \<times> movie \<Rightarrow> int \<times> string \<times> movie" where
  "entry = (\<lambda>(i, m). (i, movie_title m, m))"

text \<open>The same engine result with every score replaced: \<open>f m\<close> is the new score of \<open>m\<close>.\<close>

definition rescore_movie :: "(movie \<Rightarrow> real) \<Rightarrow> movie \<Rightarrow> movie" where
  "rescore_movie f m = m\<lparr>final_score := f m\<rparr>"

definition rescore :: "(movie \<Rightarrow> real) \<Rightarrow> result \<Rightarrow> result" where
  "rescore f r =
     r\<lparr>recommendations := map_attr (map (rescore_movie f)) (recommendations r),
       entity_track := map_attr (map (rescore_movie f)) (entity_track r),
       mood_track := map_attr (map (rescore_movie f)) (mood_track r)\<rparr>"

text \<open>
  A catalog cell for which \<^verbatim>\<open>safe_get\<close> gives the default: the column is missing, or the
  cell is \<^verbatim>\<open>None\<close>, a NaN of Python's \<^verbatim>\<open>float\<close>, an empty list or an empty tuple.
\<close>

definition needs_default :: "pyval option \<Rightarrow> bool" where
  "needs_default cell =
     (cell = None \<or> cell = Some PNone \<or> cell = Some (PFloat FNaN) \<or>
      cell = Some (PList []) \<or> cell = Some (PTuple []))"

text \<open>A value that is a null or a NaN: \<^verbatim>\<open>None\<close>, \<^verbatim>\<open>pd.NA\<close>, \<^verbatim>\<open>pd.NaT\<close>, or a NaN of either float type.\<close>

definition null_or_nan :: "pyval \<Rightarrow> bool" where
  "null_or_nan v =
     (v = PNone \<or> v = PNA \<or> v = PNaT \<or> v = PFloat FNaN \<or> v = PFloat32 FNaN)"

definition detail_keys :: "string list" where
  "detail_keys =
     [''title'', ''year'', ''directors'', ''cast'', ''production_companies'', ''overview'',
      ''genres'', ''runtime'', ''vote_average'']"

text \<open>The defaults the spec names for the fields other than the title.\<close>

definition spec_default :: "string \<Rightarrow> pyval" where
  "spec_default key =
     (if key \<in> set [''directors'', ''cast'', ''production_companies'', ''genres''] then PList []
      else if key = ''overview'' then PStr ''No overview available.''
      else PStr ''N/A'')"

text \<open>The shape \<^verbatim>\<open>local@domain.tld\<close>, the top-level domain of two letters or more.\<close>

definition email_shape :: "string \<Rightarrow> string \<Rightarrow> string \<Rightarrow> bool" where
  "email_shape l d t =
     (l \<noteq> [] \<and> list_all local_class l \<and> d \<noteq> [] \<and> list_all domain_class d \<and>
      2 \<le> length t \<and> list_all is_alpha t)"

subsection \<open>Example data\<close>

definition mk_movie :: "string \<Rightarrow> real \<Rightarrow> movie" where
  "mk_movie t sc = \<lparr>movie_title = t, final_score = sc, year = None, overview = None\<rparr>"

definition ex_entity :: "movie list" where
  "ex_entity = [mk_movie ''Pretty Woman'' 0.2, mk_movie ''Notting Hill'' 0.4]"

definition ex_mood :: "movie list" where
  "ex_mood = [mk_movie ''Amelie'' 0.9]"

definition ex_dual :: result where
  "ex_dual =
     \<lparr>recommendations = Val ex_entity, dual_track_mode = Val True,
      entity_track = Val ex_entity, mood_track = Val ex_mood\<rparr>"

definition ex_single :: result where
  "ex_single =
     \<lparr>recommendations = Val ex_entity, dual_track_mode = Absent,
      entity_track = Absent, mood_track = Absent\<rparr>"


text \<open>Both tracks filled, the recommendations empty.\<close>

definition ex_dual_no_recs :: result where
  "ex_dual_no_recs =
     \<lparr>recommendations = Val [], dual_track_mode = Val True,
      entity_track = Val ex_entity, mood_track = Val ex_mood\<rparr>"

text \<open>Both tracks filled, no \<^verbatim>\<open>recommendations\<close> attribute.\<close>

definition ex_dual_only :: result where
  "ex_dual_only =
     \<lparr>recommendations = Absent, dual_track_mode = Val True,
      entity_track = Val ex_entity, mood_track = Val ex_mood\<rparr>"

definition heat_wave :: row where
  "heat_wave = [''title'' \<mapsto> PStr ''Heat Wave'', ''year'' \<mapsto> PInt 1990]"

definition heat :: row where
  "heat =
     [''title'' \<mapsto> PStr ''Heat'', ''year'' \<mapsto> PInt 1995, ''runtime'' \<mapsto> PFloat FNaN,
      ''directors'' \<mapsto> PList [PStr ''Michael Mann''], ''cast'' \<mapsto> PList [],
      ''overview'' \<mapsto> PNone, ''genres'' \<mapsto> PTuple []]"

text \<open>
  A row whose \<^verbatim>\<open>runtime\<close> column has the dtype \<^verbatim>\<open>float32\<close> and whose \<^verbatim>\<open>year\<close> column is a
  nullable integer column, both cells missing; its \<^verbatim>\<open>vote_average\<close> is a \<^verbatim>\<open>float64\<close> NaN.
\<close>

definition heat_numpy :: row where
  "heat_numpy =
     [''title'' \<mapsto> PStr ''Heat'', ''year'' \<mapsto> PNA, ''runtime'' \<mapsto> PFloat32 FNaN,
      ''vote_average'' \<mapsto> PFloat FNaN]"

definition ex_numpy_engine :: recommender where
  "ex_numpy_engine = \<lparr>movies = [heat_numpy], recommend = (\<lambda>query mode topn. Inr ex_dual)\<rparr>"

definition ex_engine :: recommender where
  "ex_engine = \<lparr>movies = [heat_wave, heat], recommend = (\<lambda>query mode topn. Inr ex_dual)\<rparr>"

definition ex_failing_engine :: recommender where
  "ex_failing_engine =
     \<lparr>movies = [heat_wave, heat],
      recommend = (\<lambda>query mode topn. Inl (EngineError ''model not loaded''))\<rparr>"

text \<open>A regular expression library that rejects every pattern.\<close>

definition no_regex :: regex_lib where
  "no_regex pat = Inl (ReError ''bad pattern'')"

text \<open>A session on the search page that holds the outcome of an earlier search.\<close>

definition ex_session :: session where
  "ex_session =
     fst (run_search ex_engine 1.5 True ''Julia Roberts romances'' ''balanced'' 10
            (init_session_state\<lparr>page := ''search'', logged_in := True\<rparr>))"

text \<open>An engine that answers every query with the result \<open>r\<close>.\<close>

definition engine_returning :: "result \<Rightarrow> recommender" where
  "engine_returning r = \<lparr>movies = [heat_wave, heat], recommend = (\<lambda>query mode topn. Inr r)\<rparr>"

text \<open>
  The invariant the spec states for the session: no movie list without search results.
\<close>

definition session_inv :: "session \<Rightarrow> bool" where
  "session_inv s = (search_results s = None \<longrightarrow> all_movies_list s = [])"

section \<open>Properties\<close>

subsection \<open>Ranks of the flattened list\<close>

lemma enumerate_py_zip:
  "enumerate_py xs start = zip [start .. start + int (length xs) - 1] xs"
proof (induction xs arbitrary: start)
  case Nil
  then show ?case by simp
next
  case (Cons x xs)
  have "[start .. start + int (length (x # xs)) - 1]
          = start # [start + 1 .. start + 1 + int (length xs) - 1]"
    by (simp add: upto_rec1)
  then show ?case using Cons.IH [of "start + 1"] by simp
qed

lemma length_enumerate_py [simp]: "length (enumerate_py xs start) = length xs"
  by (induction xs arbitrary: start) auto

lemma map_snd_enumerate_py [simp]: "map snd (enumerate_py xs start) = xs"
  by (induction xs arbitrary: start) auto

lemma map_fst_enumerate_py:
  "map fst (enumerate_py xs start) = [start .. start + int (length xs) - 1]"
  by (induction xs arbitrary: start) (auto simp: upto_rec1)

lemma length_append_ranked [simp]: "length (append_ranked ms start) = length ms"
  by (simp add: append_ranked_def)

lemma map_fst_append_ranked:
  "map fst (append_ranked ms start) = [start .. start + int (length ms) - 1]"
  by (simp add: append_ranked_def map_fst_enumerate_py [symmetric] case_prod_unfold comp_def)

lemma append_ranked_zip:
  "append_ranked ms start = map entry (zip [start .. start + int (length ms) - 1] ms)"
  by (simp add: append_ranked_def enumerate_py_zip entry_def)

lemma py_slice_to_take: "0 \<le> n \<Longrightarrow> py_slice_to xs n = take (nat n) xs"
  by (simp add: py_slice_to_def)

lemma is_dual_iff:
  "is_dual r \<longleftrightarrow>
     dual_track_mode r = Val True \<and>
     (\<exists>es. entity_track r = Val es \<and> es \<noteq> []) \<and>
     (\<exists>ms. mood_track r = Val ms \<and> ms \<noteq> [])"
proof -
  have b: "\<And>a. (hasattr a \<and> truthy_bool a) = (a = Val True)"
    by (case_tac a) (auto simp: hasattr_def)
  have l: "\<And>a::movie list attr. (hasattr a \<and> truthy_list a) = (\<exists>xs. a = Val xs \<and> xs \<noteq> [])"
    by (case_tac a) (auto simp: hasattr_def)
  show ?thesis
    unfolding is_dual_def using b [of "dual_track_mode r"] l [of "entity_track r"] l [of "mood_track r"]
    by blast
qed

lemma upto_append_ranks:
  assumes "0 \<le> a" "0 \<le> b"
  shows "[1 .. a] @ [a + 1 .. a + b] = [1 .. a + b]"
proof (cases "a = 0")
  case True
  then show ?thesis by simp
next
  case False
  with assms have "1 \<le> a" "a \<le> a + b" by simp_all
  then show ?thesis by (rule upto_split2 [symmetric])
qed


lemma take_min_length: "take (min n (length xs)) xs = take n xs"
  by (simp add: min_def)

lemma ranked_take:
  "0 \<le> topn \<Longrightarrow>
   append_ranked (py_slice_to xs topn) start =
     map entry
       (zip [start .. start + int (min (nat topn) (length xs)) - 1]
          (take (min (nat topn) (length xs)) xs))"
  by (simp add: append_ranked_zip py_slice_to_take take_min_length min.commute)

lemma build_dual:
  assumes "entity_track r = Val es" "mood_track r = Val ms" "is_dual r"
  shows "build_all_movies r topn =
           Inr (append_ranked (py_slice_to es topn) 1 @
                append_ranked (py_slice_to ms topn) (int (length (py_slice_to es topn)) + 1))"
  using assms by (simp add: build_all_movies_def Let_def)

lemma build_single:
  assumes "recommendations r = Val rs" "\<not> is_dual r"
  shows "build_all_movies r topn = Inr (append_ranked (py_slice_to rs topn) 1)"
  using assms by (simp add: build_all_movies_def)

lemma build_cases:
  assumes "build_all_movies r topn = Inr all"
  obtains (dual) es ms where "is_dual r" "entity_track r = Val es" "mood_track r = Val ms"
      "all = append_ranked (py_slice_to es topn) 1 @
             append_ranked (py_slice_to ms topn) (int (length (py_slice_to es topn)) + 1)"
    | (single) rs where "\<not> is_dual r" "recommendations r = Val rs"
      "all = append_ranked (py_slice_to rs topn) 1"
proof (cases "is_dual r")
  case True
  then obtain es ms where t: "entity_track r = Val es" "mood_track r = Val ms"
    by (auto simp: is_dual_iff)
  from build_dual [OF t True, of topn] assms dual [OF True t] show thesis by simp
next
  case False
  with assms single show thesis
    by (cases "recommendations r") (auto simp: build_all_movies_def)
qed

lemma build_ranks:
  assumes "build_all_movies r topn = Inr all"
  shows "map fst all = [1 .. int (length all)]"
  using assms
proof (cases rule: build_cases)
  case (dual es ms)
  let ?e = "py_slice_to es topn" and ?m = "py_slice_to ms topn"
  have "map fst all =
          [1 .. int (length ?e)] @ [int (length ?e) + 1 .. int (length ?e) + int (length ?m)]"
    by (simp add: dual(4) map_fst_append_ranked)
  also have "\<dots> = [1 .. int (length ?e) + int (length ?m)]"
    by (rule upto_append_ranks) simp_all
  finally show ?thesis by (simp add: dual(4))
next
  case (single rs)
  then show ?thesis by (simp add: map_fst_append_ranked)
qed

text \<open>
  C1. For a page size between 5 and 20: a dual-track result is flattened to the first
  \<open>k1 = min top_n (length entity_track)\<close> entity entries with the ranks \<open>1..k1\<close>, followed by
  the first \<open>k2 = min top_n (length mood_track)\<close> mood entries with the ranks
  \<open>k1+1..k1+k2\<close>; any other result whose recommendations are a list is flattened to their
  first \<open>min top_n (length recommendations)\<close> entries with the ranks from 1; and whenever a
  list is built, its ranks are exactly \<open>1..length\<close>.
\<close>

theorem flatten_ranks:
  assumes "5 \<le> topn" and "topn \<le> 20"
  shows
    "(is_dual r \<longrightarrow>
        (\<exists>es ms. entity_track r = Val es \<and> mood_track r = Val ms \<and>
           (let k1 = min (nat topn) (length es); k2 = min (nat topn) (length ms)
            in build_all_movies r topn =
                 Inr (map entry (zip [1 .. int k1] (take k1 es)) @
                      map entry (zip [int k1 + 1 .. int k1 + int k2] (take k2 ms)))))) \<and>
     (\<not> is_dual r \<longrightarrow>
        (\<forall>rs. recommendations r = Val rs \<longrightarrow>
           (let k = min (nat topn) (length rs)
            in build_all_movies r topn = Inr (map entry (zip [1 .. int k] (take k rs)))))) \<and>
     (\<forall>all. build_all_movies r topn = Inr all \<longrightarrow>
        map fst all = [1 .. int (length all)] \<and> length all \<le> 2 * nat topn)"
proof (intro conjI impI allI)
  assume d: "is_dual r"
  then obtain es ms where t: "entity_track r = Val es" "mood_track r = Val ms"
    by (auto simp: is_dual_iff)
  from assms have n: "0 \<le> topn" by simp
  have "length (py_slice_to es topn) = min (nat topn) (length es)"
    using n by (simp add: py_slice_to_take min.commute)
  then have "build_all_movies r topn =
      Inr (map entry
             (zip [1 .. int (min (nat topn) (length es))] (take (min (nat topn) (length es)) es)) @
           map entry
             (zip [int (min (nat topn) (length es)) + 1 ..
                   int (min (nat topn) (length es)) + int (min (nat topn) (length ms))]
                (take (min (nat topn) (length ms)) ms)))"
    using build_dual [OF t d] ranked_take [OF n, of es 1]
      ranked_take [OF n, of ms "int (min (nat topn) (length es)) + 1"]
    by (simp add: add.commute)
  with t show "\<exists>es ms. entity_track r = Val es \<and> mood_track r = Val ms \<and>
           (let k1 = min (nat topn) (length es); k2 = min (nat topn) (length ms)
            in build_all_movies r topn =
                 Inr (map entry (zip [1 .. int k1] (take k1 es)) @
                      map entry (zip [int k1 + 1 .. int k1 + int k2] (take k2 ms))))"
    by (simp add: Let_def)
next
  fix rs
  assume "\<not> is_dual r" "recommendations r = Val rs"
  from assms have n: "0 \<le> topn" by simp
  show "let k = min (nat topn) (length rs)
        in build_all_movies r topn = Inr (map entry (zip [1 .. int k] (take k rs)))"
    using build_single [OF \<open>recommendations r = Val rs\<close> \<open>\<not> is_dual r\<close>, of topn]
      ranked_take [OF n, of rs 1]
    by (simp add: Let_def)
next
  fix all
  assume "build_all_movies r topn = Inr all"
  then show "map fst all = [1 .. int (length all)]" by (rule build_ranks)
next
  fix all
  assume b: "build_all_movies r topn = Inr all"
  from assms have n: "0 \<le> topn" by simp
  have len: "\<And>xs :: movie list. length (py_slice_to xs topn) \<le> nat topn"
    using n by (simp add: py_slice_to_take)
  from b show "length all \<le> 2 * nat topn"
  proof (cases rule: build_cases)
    case (dual es ms)
    with len [of es] len [of ms] show ?thesis by simp
  next
    case (single rs)
    with len [of rs] show ?thesis by simp
  qed
qed

text \<open>
  With \<open>top_n = 5\<close>, two entity entries and one mood entry: the ranks are 1, 2 and then 3.
\<close>

theorem flatten_ranks_witness:
  "(5::int) \<le> 5 \<and> (5::int) \<le> 20 \<and> is_dual ex_dual \<and>
   build_all_movies ex_dual 5 =
     Inr [(1, ''Pretty Woman'', mk_movie ''Pretty Woman'' 0.2),
          (2, ''Notting Hill'', mk_movie ''Notting Hill'' 0.4),
          (3, ''Amelie'', mk_movie ''Amelie'' 0.9)] \<and>
   (\<exists>all. build_all_movies ex_dual 5 = Inr all \<and> map fst all = [1 .. int (length all)])"
proof -
  have d: "is_dual ex_dual"
    by (simp add: is_dual_def ex_dual_def ex_entity_def ex_mood_def hasattr_def)
  have b: "build_all_movies ex_dual 5 =
     Inr [(1, ''Pretty Woman'', mk_movie ''Pretty Woman'' 0.2),
          (2, ''Notting Hill'', mk_movie ''Notting Hill'' 0.4),
          (3, ''Amelie'', mk_movie ''Amelie'' 0.9)]"
    using d
    by (simp add: build_all_movies_def ex_dual_def ex_entity_def ex_mood_def py_slice_to_def
        append_ranked_def mk_movie_def)
  from flatten_ranks [of 5 ex_dual] b d show ?thesis by simp
qed

subsection \<open>Which variant a result is\<close>

lemma spec_dual_iff:
  "spec_dual r \<longleftrightarrow>
     dual_track_mode r = Val True \<and>
     (\<exists>es. entity_track r = Val es \<and> es \<noteq> []) \<and>
     (\<exists>ms. mood_track r = Val ms \<and> ms \<noteq> [])"
  by (auto simp: spec_dual_def split: attr.splits)

lemma is_dual_track_eq: "is_dual_track r = is_dual r"
  by (simp add: is_dual_track_def is_dual_def)




subsection \<open>Order of the flattened list\<close>

lemma enumerate_py_map:
  "enumerate_py (map g xs) start = map (\<lambda>(i, x). (i, g x)) (enumerate_py xs start)"
  by (induction xs arbitrary: start) auto

lemma py_slice_to_map: "py_slice_to (map g xs) n = map g (py_slice_to xs n)"
  by (simp add: py_slice_to_def take_map)

lemma append_ranked_rescore:
  "append_ranked (map (rescore_movie f) xs) start =
     map (\<lambda>(i, t, m). (i, t, rescore_movie f m)) (append_ranked xs start)"
  by (simp add: append_ranked_def enumerate_py_map case_prod_unfold rescore_movie_def)

lemma is_dual_rescore: "is_dual (rescore f r) = is_dual r"
  by (cases "entity_track r"; cases "mood_track r")
     (simp_all add: is_dual_def rescore_def hasattr_def)

lemma map_record_append_ranked: "map (snd \<circ> snd) (append_ranked ms start) = ms"
proof -
  have "map (snd \<circ> snd) (append_ranked ms start) = map snd (enumerate_py ms start)"
    by (simp add: append_ranked_def case_prod_unfold comp_def)
  then show ?thesis by simp
qed

text \<open>
  C3. For a dual-track result the flattened list is the entity track's prefix followed by
  the mood track's prefix, each in the engine's order, and the ranks grow strictly along
  it: every entity entry is ranked before every mood entry. Replacing the scores by any
  others changes no rank and no position.
\<close>

theorem dual_order_preserved:
  assumes "is_dual r" and "entity_track r = Val es" and "mood_track r = Val ms"
  shows
    "\<exists>all. build_all_movies r topn = Inr all \<and>
       map (snd \<circ> snd) all = py_slice_to es topn @ py_slice_to ms topn \<and>
       sorted_wrt (<) (map fst all) \<and>
       (\<forall>i j. i < length (py_slice_to es topn) \<and> length (py_slice_to es topn) \<le> j \<and>
              j < length all \<longrightarrow> fst (all ! i) < fst (all ! j)) \<and>
       (\<forall>f. build_all_movies (rescore f r) topn =
              Inr (map (\<lambda>(i, t, m). (i, t, rescore_movie f m)) all))"
proof -
  let ?e = "py_slice_to es topn" and ?m = "py_slice_to ms topn"
  let ?all = "append_ranked ?e 1 @ append_ranked ?m (int (length ?e) + 1)"
  have b: "build_all_movies r topn = Inr ?all"
    by (rule build_dual [OF assms(2,3,1)])
  have recs: "map (snd \<circ> snd) ?all = ?e @ ?m"
    by (simp add: map_record_append_ranked del: map_map)
  have ranks: "map fst ?all = [1 .. int (length ?all)]"
    by (rule build_ranks [OF b])
  then have sorted: "sorted_wrt (<) (map fst ?all)"
    by (simp only: sorted_wrt_upto)
  have before: "fst (?all ! i) < fst (?all ! j)"
    if "i < length ?e" "length ?e \<le> j" "j < length ?all" for i j
  proof -
    from that have "i < j" "j < length (map fst ?all)" by simp_all
    with sorted have "map fst ?all ! i < map fst ?all ! j"
      by (rule sorted_wrt_nth_less)
    with that show ?thesis by (simp del: map_append)
  qed
  have re: "build_all_movies (rescore f r) topn =
              Inr (map (\<lambda>(i, t, m). (i, t, rescore_movie f m)) ?all)" for f
  proof -
    have "entity_track (rescore f r) = Val (map (rescore_movie f) es)"
      "mood_track (rescore f r) = Val (map (rescore_movie f) ms)"
      using assms(2,3) by (simp_all add: rescore_def)
    from build_dual [OF this, of topn] assms(1) show ?thesis
      by (simp add: is_dual_rescore py_slice_to_map append_ranked_rescore)
  qed
  from b recs sorted before re show ?thesis by blast
qed

text \<open>
  The mood entry has the highest score (0.9 against 0.2 and 0.4) and still comes last.
\<close>

theorem dual_order_preserved_witness:
  "is_dual ex_dual \<and> entity_track ex_dual = Val ex_entity \<and> mood_track ex_dual = Val ex_mood \<and>
   (\<exists>all. build_all_movies ex_dual 10 = Inr all \<and>
      map (snd \<circ> snd) all = ex_entity @ ex_mood \<and> sorted_wrt (<) (map fst all))"
proof -
  have d: "is_dual ex_dual"
    by (simp add: is_dual_def ex_dual_def ex_entity_def ex_mood_def hasattr_def)
  have t: "entity_track ex_dual = Val ex_entity" "mood_track ex_dual = Val ex_mood"
    by (simp_all add: ex_dual_def)
  have s: "py_slice_to ex_mood 10 = ex_mood" "py_slice_to ex_entity 10 = ex_entity"
    by (simp_all add: py_slice_to_def ex_mood_def ex_entity_def)
  from dual_order_preserved [OF d t, of 10] d t show ?thesis
    unfolding s by blast
qed

subsection \<open>The search action and the session\<close>

lemma run_search_failure:
  assumes "search_clicked" and "query \<noteq> []"
    and "recommend rec query preference_mode topn = Inl e"
  shows "run_search rec elapsed search_clicked query preference_mode topn s =
           (s, [StError (''Error: '' @ exc_str e), StCode e])"
  using assms by (simp add: run_search_def except_handler_def)

text \<open>
  C6. When \<open>recommend\<close> raises during a search, the session after the search action is
  the session before it, in particular its \<open>search_results\<close>, \<open>all_movies_list\<close>,
  \<open>last_query\<close> and \<open>page\<close>; the action shows the error message and the traceback; and
  the run of the page goes on to display what the unchanged session holds.
\<close>

theorem engine_failure_keeps_session:
  assumes "search_clicked" and "query \<noteq> []"
    and "recommend rec query preference_mode topn = Inl e"
  shows
    "(\<exists>s' shown.
        run_search rec elapsed search_clicked query preference_mode topn s = (s', shown) \<and>
        s' = s \<and> search_results s' = search_results s \<and>
        all_movies_list s' = all_movies_list s \<and> last_query s' = last_query s \<and>
        page s' = page s \<and> shown = [StError (''Error: '' @ exc_str e), StCode e]) \<and>
     page_search re_compile rec elapsed search_clicked query preference_mode topn selected s =
       (s, case display_results re_compile rec search_clicked selected s of
             Inl e' \<Rightarrow> Inl e'
           | Inr out \<Rightarrow> Inr ([StError (''Error: '' @ exc_str e), StCode e] @ out))"
  using run_search_failure [OF assms]
  by (simp add: page_search_def split: sum.splits)

lemma ex_session_eq:
  "ex_session =
     \<lparr>page = ''search'', search_results = Some ex_dual,
      all_movies_list =
        [(1, ''Pretty Woman'', mk_movie ''Pretty Woman'' 0.2),
         (2, ''Notting Hill'', mk_movie ''Notting Hill'' 0.4),
         (3, ''Amelie'', mk_movie ''Amelie'' 0.9)],
      last_query = ''Julia Roberts romances'', user_info = Map.empty, logged_in = True,
      appearance = ''dark'', query_input = None, search_time = Some 1.5, top_n = Some 10\<rparr>"
proof -
  have d: "is_dual ex_dual"
    by (simp add: is_dual_def ex_dual_def ex_entity_def ex_mood_def hasattr_def)
  have b: "build_all_movies ex_dual 10 =
     Inr [(1, ''Pretty Woman'', mk_movie ''Pretty Woman'' 0.2),
          (2, ''Notting Hill'', mk_movie ''Notting Hill'' 0.4),
          (3, ''Amelie'', mk_movie ''Amelie'' 0.9)]"
    using d
    by (simp add: build_all_movies_def ex_dual_def ex_entity_def ex_mood_def py_slice_to_def
        append_ranked_def mk_movie_def)
  show ?thesis
    by (simp add: ex_session_def run_search_def ex_engine_def b init_session_state_def)
qed

text \<open>
  A second search, on a session that holds three movies, with an engine that raises.
\<close>

theorem engine_failure_keeps_session_witness:
  "True \<and> ''war movies'' \<noteq> [] \<and>
   recommend ex_failing_engine ''war movies'' ''balanced'' 10 = Inl (EngineError ''model not loaded'') \<and>
   run_search ex_failing_engine 0.1 True ''war movies'' ''balanced'' 10 ex_session =
     (ex_session, [StError ''Error: model not loaded'', StCode (EngineError ''model not loaded'')]) \<and>
   search_results ex_session = Some ex_dual \<and> length (all_movies_list ex_session) = 3"
proof -
  have r: "recommend ex_failing_engine ''war movies'' ''balanced'' 10 =
             Inl (EngineError ''model not loaded'')"
    by (simp add: ex_failing_engine_def)
  have q: "''war movies'' \<noteq> []" by simp
  from engine_failure_keeps_session [OF TrueI q r, where elapsed = "0.1" and s = ex_session]
  have "run_search ex_failing_engine 0.1 True ''war movies'' ''balanced'' 10 ex_session =
     (ex_session, [StError ''Error: model not loaded'', StCode (EngineError ''model not loaded'')])"
    by simp
  with r show ?thesis by (simp add: ex_session_eq)
qed

subsection \<open>The session invariant\<close>

text \<open>The operations that keep the invariant: the two query buttons and the search.\<close>

lemma session_inv_init: "session_inv init_session_state"
  by (simp add: session_inv_def init_session_state_def)

lemma session_inv_click_example: "session_inv (click_example eq s)"
  by (simp add: session_inv_def click_example_def)

lemma session_inv_click_random: "session_inv (click_random query s)"
  by (simp add: session_inv_def click_random_def)

lemma session_inv_navigate_to: "session_inv s \<Longrightarrow> session_inv (navigate_to p s)"
  by (simp add: session_inv_def navigate_to_def)

lemma session_inv_run_search:
  "session_inv s \<Longrightarrow>
   session_inv (fst (run_search rec elapsed search_clicked query preference_mode topn s))"
  by (simp add: session_inv_def run_search_def Let_def split: sum.splits)

text \<open>Log Out clears the results and leaves the list as it is.\<close>

lemma click_logout_fields:
  "search_results (click_logout s) = None \<and> all_movies_list (click_logout s) = all_movies_list s"
  by (simp add: click_logout_def)

text \<open>
  C7. The claim fails on Log Out: after a search that found three movies, logging out
  leaves a session with no search results and a movie list of three entries, where an
  example-query button on the same session empties both.
\<close>

theorem logout_keeps_movie_list:
  "search_results ex_session = Some ex_dual \<and>
   search_results (click_logout ex_session) = None \<and>
   all_movies_list (click_logout ex_session) =
     [(1, ''Pretty Woman'', mk_movie ''Pretty Woman'' 0.2),
      (2, ''Notting Hill'', mk_movie ''Notting Hill'' 0.4),
      (3, ''Amelie'', mk_movie ''Amelie'' 0.9)] \<and>
   search_results (click_example ''Epic war movies set in ancient times'' ex_session) = None \<and>
   all_movies_list (click_example ''Epic war movies set in ancient times'' ex_session) = []"
  by (simp add: ex_session_eq click_logout_def click_example_def)

subsection \<open>The gate in front of the display\<close>

lemma render_tracks_dual_header:
  assumes "render_tracks r topn = Inr rows" and "DualHeader \<in> set rows"
  shows "is_dual r"
proof (rule ccontr)
  assume n: "\<not> is_dual r"
  with assms(1) obtain rs where
    "rows = TopHeader (min topn (int (length rs))) #
            concat (map (\<lambda>row. [row, Rule]) (movie_rows (py_slice_to rs topn) 1))"
    by (cases "recommendations r") (auto simp: render_tracks_def is_dual_track_eq)
  with assms(2) show False
    by (auto simp: movie_rows_def)
qed

lemma details_section_no_dual_header:
  assumes "details_section re_compile rec selected s = Inr det"
  shows "DualHeader \<notin> set det"
  using assms
  by (auto simp: details_section_def split: if_splits menu_option.splits sum.splits option.splits)

text \<open>
  C10. The display of a stored result reads \<open>result.recommendations\<close> before anything
  else: without that attribute the display fails with an attribute error; with the
  attribute \<open>None\<close> or empty it shows the "No movies found" warning and nothing else,
  whatever the tracks hold; so the dual-track panels are shown only for a result that
  also has non-empty recommendations.
\<close>

theorem display_gated_on_recommendations:
  assumes "search_results s = Some r"
  shows
    "(recommendations r = Absent \<longrightarrow>
        display_results re_compile rec search_clicked selected s = Inl AttributeError) \<and>
     (recommendations r = IsNone \<or> recommendations r = Val [] \<longrightarrow>
        display_results re_compile rec search_clicked selected s =
          Inr [StWarning ''No movies found matching your query. Try a different search!'']) \<and>
     (\<forall>out. display_results re_compile rec search_clicked selected s = Inr out \<and>
            DualHeader \<in> set out \<longrightarrow>
        truthy_list (recommendations r) \<and> spec_dual r)"
proof (intro conjI impI allI)
  assume "recommendations r = Absent"
  with assms show "display_results re_compile rec search_clicked selected s = Inl AttributeError"
    by (simp add: display_results_def)
next
  assume "recommendations r = IsNone \<or> recommendations r = Val []"
  with assms show "display_results re_compile rec search_clicked selected s =
      Inr [StWarning ''No movies found matching your query. Try a different search!'']"
    by (auto simp: display_results_def)
next
  fix out
  assume a: "display_results re_compile rec search_clicked selected s = Inr out \<and>
             DualHeader \<in> set out"
  show "truthy_list (recommendations r)"
  proof (rule ccontr)
    assume "\<not> truthy_list (recommendations r)"
    with a assms show False
      by (cases "recommendations r") (auto simp: display_results_def)
  qed
  then obtain rows det where
    rows: "render_tracks r (case top_n s of Some n \<Rightarrow> n | None \<Rightarrow> 10) = Inr rows" and
    det: "details_section re_compile rec selected s = Inr det" and
    out: "out = StSuccess (case search_time s of Some t \<Rightarrow> t | None \<Rightarrow> 0) (last_query s) #
                rows @ det"
    using a assms
    by (cases "recommendations r")
       (auto simp: display_results_def Let_def split: sum.splits)
  from a out details_section_no_dual_header [OF det] have "DualHeader \<in> set rows"
    by auto
  with rows have "is_dual r" by (rule render_tracks_dual_header)
  then show "spec_dual r" by (simp add: is_dual_iff spec_dual_iff)
qed

text \<open>
  An engine whose result has both tracks and empty recommendations: the search builds
  the three-entry list from the tracks, and the display shows only the warning. An engine
  whose result has no \<open>recommendations\<close> attribute: the display fails.
\<close>

theorem display_gated_on_recommendations_witness:
  "spec_dual ex_dual_no_recs \<and>
   search_results (fst (run_search (engine_returning ex_dual_no_recs) 1 True ''q'' ''balanced'' 10
                          init_session_state)) = Some ex_dual_no_recs \<and>
   length (all_movies_list (fst (run_search (engine_returning ex_dual_no_recs) 1 True ''q''
                                   ''balanced'' 10 init_session_state))) = 3 \<and>
   snd (page_search no_regex (engine_returning ex_dual_no_recs) 1 True ''q'' ''balanced'' 10
          Placeholder init_session_state) =
     Inr [StWarning ''No movies found matching your query. Try a different search!''] \<and>
   spec_dual ex_dual_only \<and>
   snd (page_search no_regex (engine_returning ex_dual_only) 1 True ''q'' ''balanced'' 10
          Placeholder init_session_state) = Inl AttributeError"
proof -
  have d: "is_dual ex_dual_no_recs" "is_dual ex_dual_only"
    by (simp_all add: is_dual_def ex_dual_no_recs_def ex_dual_only_def ex_entity_def ex_mood_def
        hasattr_def)
  then have sd: "spec_dual ex_dual_no_recs" "spec_dual ex_dual_only"
    by (simp_all add: is_dual_iff spec_dual_iff)
  have b: "\<exists>all. build_all_movies ex_dual_no_recs 10 = Inr all \<and> length all = 3"
    "\<exists>all. build_all_movies ex_dual_only 10 = Inr all \<and> length all = 3"
    using d
    by (simp_all add: build_all_movies_def ex_dual_no_recs_def ex_dual_only_def ex_entity_def
        ex_mood_def py_slice_to_def)
  then obtain all1 all2 where
    b1: "build_all_movies ex_dual_no_recs 10 = Inr all1" "length all1 = 3" and
    b2: "build_all_movies ex_dual_only 10 = Inr all2" "length all2 = 3"
    by blast
  let ?s1 = "fst (run_search (engine_returning ex_dual_no_recs) 1 True ''q'' ''balanced'' 10
                    init_session_state)"
  let ?s2 = "fst (run_search (engine_returning ex_dual_only) 1 True ''q'' ''balanced'' 10
                    init_session_state)"
  have r1: "snd (run_search (engine_returning ex_dual_no_recs) 1 True ''q'' ''balanced'' 10
                   init_session_state) = []"
    by (simp add: run_search_def engine_returning_def b1)
  have r2: "snd (run_search (engine_returning ex_dual_only) 1 True ''q'' ''balanced'' 10
                   init_session_state) = []"
    by (simp add: run_search_def engine_returning_def b2)
  have s1: "search_results ?s1 = Some ex_dual_no_recs" "length (all_movies_list ?s1) = 3"
    by (simp_all add: run_search_def engine_returning_def b1)
  have s2: "search_results ?s2 = Some ex_dual_only"
    by (simp add: run_search_def engine_returning_def b2)
  have g1: "display_results no_regex (engine_returning ex_dual_no_recs) True Placeholder ?s1 =
      Inr [StWarning ''No movies found matching your query. Try a different search!'']"
    using display_gated_on_recommendations [OF s1(1), of no_regex
        "engine_returning ex_dual_no_recs" True Placeholder]
    by (simp add: ex_dual_no_recs_def)
  have g2: "display_results no_regex (engine_returning ex_dual_only) True Placeholder ?s2 =
      Inl AttributeError"
    using display_gated_on_recommendations [OF s2, of no_regex
        "engine_returning ex_dual_only" True Placeholder]
    by (simp add: ex_dual_only_def)
  have p1: "snd (page_search no_regex (engine_returning ex_dual_no_recs) 1 True ''q'' ''balanced''
                   10 Placeholder init_session_state) =
      Inr [StWarning ''No movies found matching your query. Try a different search!'']"
    by (simp add: page_search_def case_prod_unfold g1 r1)
  have p2: "snd (page_search no_regex (engine_returning ex_dual_only) 1 True ''q'' ''balanced''
                   10 Placeholder init_session_state) = Inl AttributeError"
    by (simp add: page_search_def case_prod_unfold g2)
  from sd s1 p1 p2 show ?thesis by simp
qed

subsection \<open>\<^verbatim>\<open>validate_email\<close>\<close>

lemma match_Lit_iff:
  "match_items (Lit c # items) s \<longleftrightarrow> (\<exists>v. s = c # v \<and> match_items items v)"
  by (cases s) auto

lemma take_takeWhile:
  assumes "n \<le> length (takeWhile cls s)"
  shows "take n s = take n (takeWhile cls s)"
proof -
  have "take n (takeWhile cls s) = take n (take (length (takeWhile cls s)) s)"
    using takeWhile_eq_take [of cls s] by simp
  also have "\<dots> = take n s"
    using assms by (simp add: min_absorb1)
  finally show ?thesis by simp
qed

lemma list_ex_upt_Suc: "list_ex P [k ..< Suc m] \<longleftrightarrow> (\<exists>n. k \<le> n \<and> n \<le> m \<and> P n)"
proof -
  have "set [k ..< Suc m] = {n. k \<le> n \<and> n \<le> m}"
    by (auto simp del: upt_Suc)
  then show ?thesis
    unfolding list_ex_iff by blast
qed

lemma match_AtLeast_run:
  "match_items (AtLeast k cls # items) s \<longleftrightarrow>
     (\<exists>n. k \<le> n \<and> n \<le> length (takeWhile cls s) \<and> match_items items (drop n s))"
  by (simp only: match_items.simps list_ex_upt_Suc)

lemma match_AtLeast_iff:
  "match_items (AtLeast k cls # items) s \<longleftrightarrow>
     (\<exists>u v. s = u @ v \<and> k \<le> length u \<and> list_all cls u \<and> match_items items v)"
proof
  assume "match_items (AtLeast k cls # items) s"
  then obtain n where n: "k \<le> n" "n \<le> length (takeWhile cls s)"
    and m: "match_items items (drop n s)"
    unfolding match_AtLeast_run by blast
  have len: "n \<le> length s"
    using n(2) length_takeWhile_le [of cls s] by simp
  have "set (take n s) \<subseteq> set (takeWhile cls s)"
    using take_takeWhile [OF n(2)] set_take_subset [of n "takeWhile cls s"] by simp
  then have "list_all cls (take n s)"
    by (auto simp: list_all_iff dest: set_takeWhileD)
  moreover have "s = take n s @ drop n s" by simp
  moreover have "k \<le> length (take n s)" using n(1) len by simp
  ultimately show "\<exists>u v. s = u @ v \<and> k \<le> length u \<and> list_all cls u \<and> match_items items v"
    using m by blast
next
  assume "\<exists>u v. s = u @ v \<and> k \<le> length u \<and> list_all cls u \<and> match_items items v"
  then obtain u v where s: "s = u @ v" and k: "k \<le> length u" and u: "list_all cls u"
    and m: "match_items items v"
    by blast
  from u have "takeWhile cls s = u @ takeWhile cls v"
    by (simp add: s list_all_iff)
  then have "length u \<le> length (takeWhile cls s)" by simp
  moreover have "match_items items (drop (length u) s)" using m s by simp
  ultimately show "match_items (AtLeast k cls # items) s"
    unfolding match_AtLeast_run using k by blast
qed

text \<open>The strings the pattern matches: the shape, then the end or one final newline.\<close>

lemma validate_email_iff:
  "validate_email s \<longleftrightarrow>
     (\<exists>l d t. email_shape l d t \<and>
        (s = l @ ''@'' @ d @ ''.'' @ t \<or> s = l @ ''@'' @ d @ ''.'' @ t @ [CHR 0x0A]))"
proof
  assume "validate_email s"
  then obtain l r1 where 1: "s = l @ r1" "1 \<le> length l" "list_all local_class l"
      and "match_items [Lit CHR ''@'', AtLeast 1 domain_class, Lit CHR ''.'', AtLeast 2 is_alpha] r1"
    unfolding validate_email_def pattern_def match_AtLeast_iff by blast
  then obtain r2 where 2: "r1 = CHR ''@'' # r2"
      and "match_items [AtLeast 1 domain_class, Lit CHR ''.'', AtLeast 2 is_alpha] r2"
    unfolding match_Lit_iff by blast
  then obtain d r3 where 3: "r2 = d @ r3" "1 \<le> length d" "list_all domain_class d"
      and "match_items [Lit CHR ''.'', AtLeast 2 is_alpha] r3"
    unfolding match_AtLeast_iff by blast
  then obtain r4 where 4: "r3 = CHR ''.'' # r4" and "match_items [AtLeast 2 is_alpha] r4"
    unfolding match_Lit_iff by blast
  then obtain t r5 where 5: "r4 = t @ r5" "2 \<le> length t" "list_all is_alpha t"
      and "match_items [] r5"
    unfolding match_AtLeast_iff by blast
  then have 6: "r5 = [] \<or> r5 = [CHR 0x0A]"
    by (simp add: end_anchor_def)
  have shape: "email_shape l d t"
    using 1 3 5 by (auto simp: email_shape_def)
  from 6 have "s = l @ ''@'' @ d @ ''.'' @ t \<or> s = l @ ''@'' @ d @ ''.'' @ t @ [CHR 0x0A]"
    using 1 2 3 4 5 by auto
  with shape show "\<exists>l d t. email_shape l d t \<and>
        (s = l @ ''@'' @ d @ ''.'' @ t \<or> s = l @ ''@'' @ d @ ''.'' @ t @ [CHR 0x0A])"
    by blast
next
  assume "\<exists>l d t. email_shape l d t \<and>
        (s = l @ ''@'' @ d @ ''.'' @ t \<or> s = l @ ''@'' @ d @ ''.'' @ t @ [CHR 0x0A])"
  then obtain l d t r5 where shape: "email_shape l d t"
    and r5: "r5 = [] \<or> r5 = [CHR 0x0A]"
    and s: "s = l @ CHR ''@'' # d @ CHR ''.'' # t @ r5"
    by auto
  from r5 have "match_items [] r5"
    by (simp add: end_anchor_def)
  with shape have "match_items [AtLeast 2 is_alpha] (t @ r5)"
    unfolding match_AtLeast_iff email_shape_def by blast
  then have "match_items [Lit CHR ''.'', AtLeast 2 is_alpha] (CHR ''.'' # t @ r5)"
    unfolding match_Lit_iff by blast
  with shape have
    "match_items [AtLeast 1 domain_class, Lit CHR ''.'', AtLeast 2 is_alpha] (d @ CHR ''.'' # t @ r5)"
    unfolding match_AtLeast_iff [of 1] email_shape_def
    by (metis One_nat_def Suc_leI length_greater_0_conv)
  then have "match_items [Lit CHR ''@'', AtLeast 1 domain_class, Lit CHR ''.'', AtLeast 2 is_alpha]
               (CHR ''@'' # d @ CHR ''.'' # t @ r5)"
    unfolding match_Lit_iff by blast
  with shape have "match_items pattern (l @ CHR ''@'' # d @ CHR ''.'' # t @ r5)"
    unfolding pattern_def match_AtLeast_iff [of 1 local_class] email_shape_def
    by (metis One_nat_def Suc_leI length_greater_0_conv)
  then show "validate_email s"
    by (simp add: validate_email_def s)
qed

lemmas char_class_defs =
  local_class_def domain_class_def is_alnum_def is_alpha_def in_range_def

text \<open>
  C8, the claim as it stands: the pattern asks for two letters after the last dot, and
  \<^verbatim>\<open>a@b.c\<close> has one.
\<close>

theorem validate_email_one_letter_tld: "validate_email ''a@b.c'' = False"
  by (simp add: validate_email_def pattern_def char_class_defs end_anchor_def)

text \<open>
  C8, amended. Every string of the shape \<^verbatim>\<open>local@domain.tld\<close> is accepted, where the local
  part is one or more of \<^verbatim>\<open>[a-zA-Z0-9._%+-]\<close>, the domain one or more of \<^verbatim>\<open>[a-zA-Z0-9.-]\<close>
  and the top-level domain two or more letters; an accepted string that does not end in
  a newline has that shape. \<^verbatim>\<open>a@b.c\<close>, \<^verbatim>\<open>not-an-email\<close> and the empty string are rejected.
\<close>

theorem validate_email_shape:
  "(email_shape l d t \<longrightarrow> validate_email (l @ ''@'' @ d @ ''.'' @ t)) \<and>
   (validate_email s \<and> (s = [] \<or> last s \<noteq> CHR 0x0A) \<longrightarrow>
      (\<exists>l d t. email_shape l d t \<and> s = l @ ''@'' @ d @ ''.'' @ t)) \<and>
   validate_email ''a@b.c'' = False \<and>
   validate_email ''not-an-email'' = False \<and>
   validate_email '''' = False"
proof (intro conjI impI)
  assume "email_shape l d t"
  then show "validate_email (l @ ''@'' @ d @ ''.'' @ t)"
    unfolding validate_email_iff by blast
next
  assume a: "validate_email s \<and> (s = [] \<or> last s \<noteq> CHR 0x0A)"
  then obtain l d t where shape: "email_shape l d t"
    and s: "s = l @ ''@'' @ d @ ''.'' @ t \<or> s = l @ ''@'' @ d @ ''.'' @ t @ [CHR 0x0A]"
    unfolding validate_email_iff by blast
  from a have "s \<noteq> l @ ''@'' @ d @ ''.'' @ t @ [CHR 0x0A]"
    by auto
  with s shape show "\<exists>l d t. email_shape l d t \<and> s = l @ ''@'' @ d @ ''.'' @ t"
    by blast
next
  show "validate_email ''a@b.c'' = False"
    by (simp add: validate_email_def pattern_def char_class_defs end_anchor_def)
  show "validate_email ''not-an-email'' = False"
    by (simp add: validate_email_def pattern_def char_class_defs end_anchor_def)
  show "validate_email [] = False"
    by (simp add: validate_email_def pattern_def)
qed

text \<open>\<^verbatim>\<open>a@b.co\<close> has the shape, with the parts \<^verbatim>\<open>a\<close>, \<^verbatim>\<open>b\<close> and \<^verbatim>\<open>co\<close>, and is accepted.\<close>

theorem validate_email_shape_witness:
  "email_shape ''a'' ''b'' ''co'' \<and> validate_email ''a@b.co'' \<and>
   last ''a@b.co'' \<noteq> CHR 0x0A \<and>
   (\<exists>l d t. email_shape l d t \<and> ''a@b.co'' = l @ ''@'' @ d @ ''.'' @ t)"
proof -
  have shape: "email_shape ''a'' ''b'' ''co''"
    by (simp add: email_shape_def char_class_defs)
  with validate_email_shape [of "''a''" "''b''" "''co''" "''a@b.co''"]
  have v: "validate_email ''a@b.co''" by simp
  with validate_email_shape [of "''a''" "''b''" "''co''" "''a@b.co''"]
  have "\<exists>l d t. email_shape l d t \<and> ''a@b.co'' = l @ ''@'' @ d @ ''.'' @ t"
    by simp
  with shape v show ?thesis by simp
qed

subsection \<open>The signup form\<close>

text \<open>
  C9. With the three inputs filled in, the message is the first that applies of: invalid
  email, passwords differ, password shorter than six. With an email that passes,
  \<^verbatim>\<open>abc\<close> confirmed by \<^verbatim>\<open>abc\<close> is too short and \<^verbatim>\<open>abcdef\<close> against \<^verbatim>\<open>abcdeg\<close> is a mismatch.
\<close>

theorem signup_first_violation:
  assumes "email \<noteq> []" and "password \<noteq> []" and "verify_password \<noteq> []"
  shows
    "signup_error_msg email password verify_password =
       (if \<not> validate_email email then Some ''Please enter a valid email address.''
        else if password \<noteq> verify_password then Some ''Passwords do not match.''
        else if length password < 6 then Some ''Password must be at least 6 characters.''
        else None) \<and>
     (validate_email email \<longrightarrow>
        signup_error_msg email ''abc'' ''abc'' = Some ''Password must be at least 6 characters.'' \<and>
        signup_error_msg email ''abcdef'' ''abcdeg'' = Some ''Passwords do not match.'')"
  using assms by (simp add: signup_error_msg_def)

theorem signup_first_violation_witness:
  "''a@b.co'' \<noteq> [] \<and> ''abc'' \<noteq> [] \<and> validate_email ''a@b.co'' \<and>
   signup_error_msg ''a@b.co'' ''abc'' ''abc'' = Some ''Password must be at least 6 characters.'' \<and>
   signup_error_msg ''a@b.co'' ''abcdef'' ''abcdeg'' = Some ''Passwords do not match.'' \<and>
   signup_error_msg ''a@b.c'' ''abcdef'' ''abcdeg'' = Some ''Please enter a valid email address.''"
proof -
  have v: "validate_email ''a@b.co''" "\<not> validate_email ''a@b.c''"
    by (simp_all add: validate_email_def pattern_def char_class_defs end_anchor_def)
  have ne: "''a@b.co'' \<noteq> []" "''abc'' \<noteq> []" "''a@b.c'' \<noteq> []" "''abcdef'' \<noteq> []"
    "''abcdeg'' \<noteq> []"
    by simp_all
  from signup_first_violation [OF ne(1) ne(2) ne(2)] v(1)
  have 1: "signup_error_msg ''a@b.co'' ''abc'' ''abc'' =
             Some ''Password must be at least 6 characters.''"
    "signup_error_msg ''a@b.co'' ''abcdef'' ''abcdeg'' = Some ''Passwords do not match.''"
    by simp_all
  from signup_first_violation [OF ne(3) ne(4) ne(5)] v(2)
  have 2: "signup_error_msg ''a@b.c'' ''abcdef'' ''abcdeg'' =
             Some ''Please enter a valid email address.''"
    by simp
  from v 1 2 show ?thesis by simp
qed

subsection \<open>Resolving a title\<close>

lemma title_lower_Some:
  "title_lower r = Some k \<longleftrightarrow> (\<exists>title. r ''title'' = Some (PStr title) \<and> lower title = k)"
  by (auto simp: title_lower_def split: option.splits pyval.splits)

lemma get_movie_details_exact:
  assumes "filter (\<lambda>r. title_lower r = Some (lower t)) (movies rec) = movie # rest"
  shows "get_movie_details re_compile rec t = Inr (Some (details_of movie t))"
  using assms by (simp add: get_movie_details_def)

lemma get_movie_details_fallback:
  assumes "filter (\<lambda>r. title_lower r = Some (lower t)) (movies rec) = []"
  shows "get_movie_details re_compile rec t =
           (case re_compile (lower t) of
              Inl e \<Rightarrow> Inl e
            | Inr search \<Rightarrow>
                (case filter (str_contains search) (movies rec) of
                   [] \<Rightarrow> Inr None
                 | movie # _ \<Rightarrow> Inr (Some (details_of movie t))))"
  using assms by (simp add: get_movie_details_def)

text \<open>
  C4. A row matches exactly when its title is a string that equals the input once both
  are lowered. If some row matches exactly, the first such row of the catalog is the one
  resolved, whatever the regular expression library would do with the input, even
  raise: the substring search is not consulted. If no row matches exactly, the outcome is
  that of the substring search.
\<close>

theorem exact_match_first:
  "((\<exists>r \<in> set (movies rec). \<exists>title. r ''title'' = Some (PStr title) \<and> lower title = lower t) \<longrightarrow>
      (\<exists>pre movie post title.
         movies rec = pre @ movie # post \<and>
         movie ''title'' = Some (PStr title) \<and> lower title = lower t \<and>
         (\<forall>r \<in> set pre. title_lower r \<noteq> Some (lower t)) \<and>
         (\<forall>re_compile. get_movie_details re_compile rec t = Inr (Some (details_of movie t))))) \<and>
   (\<not> (\<exists>r \<in> set (movies rec). \<exists>title. r ''title'' = Some (PStr title) \<and> lower title = lower t) \<longrightarrow>
      (\<forall>re_compile. get_movie_details re_compile rec t =
         (case re_compile (lower t) of
            Inl e \<Rightarrow> Inl e
          | Inr search \<Rightarrow>
              (case filter (str_contains search) (movies rec) of
                 [] \<Rightarrow> Inr None
               | movie # _ \<Rightarrow> Inr (Some (details_of movie t))))))"
proof (intro conjI impI)
  let ?P = "\<lambda>r. title_lower r = Some (lower t)"
  assume "\<exists>r \<in> set (movies rec). \<exists>title. r ''title'' = Some (PStr title) \<and> lower title = lower t"
  then have "\<exists>r \<in> set (movies rec). ?P r"
    by (simp add: title_lower_Some)
  then have "filter ?P (movies rec) \<noteq> []"
    by (simp add: filter_empty_conv)
  then obtain movie rest where f: "filter ?P (movies rec) = movie # rest"
    by (cases "filter ?P (movies rec)") auto
  then obtain pre post where split: "movies rec = pre @ movie # post"
    and pre: "\<forall>r \<in> set pre. \<not> ?P r" and m: "?P movie"
    unfolding filter_eq_Cons_iff by blast
  from m obtain title where title: "movie ''title'' = Some (PStr title)" "lower title = lower t"
    unfolding title_lower_Some by blast
  have "\<forall>re_compile. get_movie_details re_compile rec t = Inr (Some (details_of movie t))"
    using get_movie_details_exact [OF f] by simp
  with split pre title
  show "\<exists>pre movie post title.
         movies rec = pre @ movie # post \<and>
         movie ''title'' = Some (PStr title) \<and> lower title = lower t \<and>
         (\<forall>r \<in> set pre. title_lower r \<noteq> Some (lower t)) \<and>
         (\<forall>re_compile. get_movie_details re_compile rec t = Inr (Some (details_of movie t)))"
    by blast
next
  let ?P = "\<lambda>r. title_lower r = Some (lower t)"
  assume "\<not> (\<exists>r \<in> set (movies rec). \<exists>title. r ''title'' = Some (PStr title) \<and> lower title = lower t)"
  then have "\<forall>r \<in> set (movies rec). \<not> ?P r"
    by (simp add: title_lower_Some)
  then have "filter ?P (movies rec) = []"
    by (simp add: filter_empty_conv)
  then show "\<forall>re_compile. get_movie_details re_compile rec t =
         (case re_compile (lower t) of
            Inl e \<Rightarrow> Inl e
          | Inr search \<Rightarrow>
              (case filter (str_contains search) (movies rec) of
                 [] \<Rightarrow> Inr None
               | movie # _ \<Rightarrow> Inr (Some (details_of movie t))))"
    using get_movie_details_fallback by blast
qed

lemma lower_heat: "lower ''Heat'' = ''heat''" "lower ''HEAT'' = ''heat''"
  "lower ''Heat Wave'' = ''heat wave''" "lower ''heat'' = ''heat''"
  by code_simp+

lemma title_lower_examples:
  "title_lower heat = Some ''heat''" "title_lower heat_wave = Some ''heat wave''"
  by (simp_all add: title_lower_def heat_def heat_wave_def lower_heat)

text \<open>
  The catalog holds \<^verbatim>\<open>Heat Wave\<close> before \<^verbatim>\<open>Heat\<close>. Resolving \<^verbatim>\<open>Heat\<close>, or \<^verbatim>\<open>HEAT\<close>, gives
  the record of \<^verbatim>\<open>Heat\<close>, with a library that would raise on any pattern.
\<close>

theorem exact_match_first_witness:
  "movies ex_engine = [heat_wave, heat] \<and>
   heat ''title'' = Some (PStr ''Heat'') \<and> heat_wave ''title'' = Some (PStr ''Heat Wave'') \<and>
   get_movie_details no_regex ex_engine ''Heat'' = Inr (Some (details_of heat ''Heat'')) \<and>
   get_movie_details no_regex ex_engine ''HEAT'' = Inr (Some (details_of heat ''HEAT'')) \<and>
   details_of heat ''HEAT'' ''title'' = Some (PStr ''Heat'') \<and>
   details_of heat ''HEAT'' ''year'' = Some (PInt 1995)"
proof -
  have cat: "movies ex_engine = [heat_wave, heat]"
    by (simp add: ex_engine_def)
  have titles: "heat ''title'' = Some (PStr ''Heat'')" "heat_wave ''title'' = Some (PStr ''Heat Wave'')"
    by (simp_all add: heat_def heat_wave_def)
  have resolve: "get_movie_details no_regex ex_engine t = Inr (Some (details_of heat t))"
    if t: "lower t = ''heat''" for t
  proof -
    have ex: "\<exists>r \<in> set (movies ex_engine). \<exists>title. r ''title'' = Some (PStr title) \<and> lower title = lower t"
      using titles(1) t cat by (auto simp: lower_heat)
    with exact_match_first [of ex_engine t] obtain pre movie post where
      split: "movies ex_engine = pre @ movie # post" and
      first: "\<forall>r \<in> set pre. title_lower r \<noteq> Some (lower t)" and
      m: "title_lower movie = Some (lower t)" and
      res: "get_movie_details no_regex ex_engine t = Inr (Some (details_of movie t))"
      unfolding title_lower_Some by blast
    from split cat have "movie = heat_wave \<or> movie = heat"
      by (auto simp: Cons_eq_append_conv)
    with m t have "movie = heat"
      by (auto simp: title_lower_examples)
    with res show ?thesis by simp
  qed
  have fields: "details_of heat ''HEAT'' ''title'' = Some (PStr ''Heat'')"
    "details_of heat ''HEAT'' ''year'' = Some (PInt 1995)"
    by (simp_all add: details_of_def safe_get_def heat_def)
  from cat titles resolve [OF lower_heat(1)] resolve [OF lower_heat(2)] fields
  show ?thesis by simp
qed

subsection \<open>Defaults of the detail record\<close>

lemma safe_get_default:
  assumes "needs_default (movie key)"
  shows "safe_get movie key dflt = dflt"
  using assms
  by (auto simp: needs_default_def safe_get_def split: pyval.splits)

lemma safe_get_value:
  assumes "\<not> needs_default (movie key)"
  shows "Some (safe_get movie key dflt) = movie key"
proof (cases "movie key")
  case None
  with assms show ?thesis by (simp add: needs_default_def)
next
  case (Some v)
  with assms show ?thesis
    by (cases v) (auto simp: needs_default_def safe_get_def elim: isna.elims)
qed

lemma safe_get_clean:
  assumes "dflt \<noteq> PNone" and "dflt \<noteq> PFloat FNaN"
  shows "safe_get movie key dflt \<noteq> PNone \<and> safe_get movie key dflt \<noteq> PFloat FNaN"
proof (cases "needs_default (movie key)")
  case True
  with assms show ?thesis by (simp add: safe_get_default)
next
  case False
  from safe_get_value [of movie key dflt] False show ?thesis
    by (auto simp: needs_default_def)
qed

lemma details_of_fields:
  "details_of movie t ''title'' = Some (safe_get movie ''title'' (PStr t))"
  "details_of movie t ''year'' = Some (safe_get movie ''year'' (PStr ''N/A''))"
  "details_of movie t ''directors'' = Some (safe_get movie ''directors'' (PList []))"
  "details_of movie t ''cast'' = Some (safe_get movie ''cast'' (PList []))"
  "details_of movie t ''production_companies'' =
     Some (safe_get movie ''production_companies'' (PList []))"
  "details_of movie t ''overview'' =
     Some (safe_get movie ''overview'' (PStr ''No overview available.''))"
  "details_of movie t ''genres'' = Some (safe_get movie ''genres'' (PList []))"
  "details_of movie t ''runtime'' = Some (safe_get movie ''runtime'' (PStr ''N/A''))"
  "details_of movie t ''vote_average'' = Some (safe_get movie ''vote_average'' (PStr ''N/A''))"
  by (simp_all add: details_of_def)

lemma dom_details_of: "dom (details_of movie t) = set detail_keys"
  by (simp add: details_of_def detail_keys_def dom_map_of_conv_image_fst)

lemma detail_keys_iff:
  "key \<in> set detail_keys \<longleftrightarrow>
     key = ''title'' \<or> key = ''year'' \<or> key = ''directors'' \<or> key = ''cast'' \<or>
     key = ''production_companies'' \<or> key = ''overview'' \<or> key = ''genres'' \<or>
     key = ''runtime'' \<or> key = ''vote_average''"
  by (simp add: detail_keys_def)

text \<open>The default the code passes for each field: the input title, or the spec's default.\<close>

lemma details_of_key:
  assumes "key \<in> set detail_keys"
  shows "details_of movie t key =
           Some (safe_get movie key (if key = ''title'' then PStr t else spec_default key))"
  using assms unfolding detail_keys_iff
  by (elim disjE) (simp_all add: details_of_fields spec_default_def)

lemma get_movie_details_row:
  assumes "get_movie_details re_compile rec t = Inr (Some d)"
  shows "\<exists>movie \<in> set (movies rec). d = details_of movie t \<and> title_lower movie \<noteq> None"
proof (cases "filter (\<lambda>r. title_lower r = Some (lower t)) (movies rec)")
  case (Cons movie rest)
  then have "movie \<in> set (filter (\<lambda>r. title_lower r = Some (lower t)) (movies rec))"
    by simp
  then have "movie \<in> set (movies rec)" "title_lower movie \<noteq> None"
    by simp_all
  with assms get_movie_details_exact [OF Cons, of re_compile] show ?thesis
    by auto
next
  case Nil
  from assms get_movie_details_fallback [OF Nil, of re_compile]
  obtain search movie rest where
    "filter (str_contains search) (movies rec) = movie # rest" "d = details_of movie t"
    by (auto split: sum.splits list.splits)
  moreover from this(1) have "movie \<in> set (filter (str_contains search) (movies rec))"
    by simp
  then have "movie \<in> set (movies rec)" "title_lower movie \<noteq> None"
    by (auto simp: str_contains_def split: option.splits)
  ultimately show ?thesis by blast
qed

text \<open>
  What the record of a resolved title holds. It is the projection of a catalog row and
  has exactly the nine fields. A field whose cell is missing, \<open>None\<close>, a NaN of Python's
  \<^verbatim>\<open>float\<close>, an empty list or an empty tuple holds the default of its kind; any other
  field holds the cell. The title is never defaulted, since the row was found by its
  title. So a field is never \<open>None\<close> and never a NaN of Python's \<^verbatim>\<open>float\<close>, and it is a
  null or a NaN exactly when the cell is a \<^verbatim>\<open>float32\<close> NaN, \<^verbatim>\<open>pd.NA\<close> or \<^verbatim>\<open>pd.NaT\<close>.
\<close>

lemma details_of_resolved:
  assumes "get_movie_details re_compile rec t = Inr (Some d)"
  shows
    "\<exists>movie \<in> set (movies rec).
       d = details_of movie t \<and> dom d = set detail_keys \<and>
       (\<exists>title. movie ''title'' = Some (PStr title) \<and> d ''title'' = Some (PStr title)) \<and>
       (\<forall>key \<in> set detail_keys. needs_default (movie key) \<longrightarrow> d key = Some (spec_default key)) \<and>
       (\<forall>key \<in> set detail_keys. \<not> needs_default (movie key) \<longrightarrow> d key = movie key) \<and>
       (\<forall>key v. d key = Some v \<longrightarrow> v \<noteq> PNone \<and> v \<noteq> PFloat FNaN) \<and>
       (\<forall>key v. d key = Some v \<and> null_or_nan v \<longrightarrow>
          (v = PFloat32 FNaN \<or> v = PNA \<or> v = PNaT) \<and> movie key = Some v)"
proof -
  from get_movie_details_row [OF assms] obtain movie where
    movie: "movie \<in> set (movies rec)" and d: "d = details_of movie t"
    and "title_lower movie \<noteq> None"
    by blast
  then obtain title where title: "movie ''title'' = Some (PStr title)"
    using title_lower_Some [of movie] by auto
  then have nt: "\<not> needs_default (movie ''title'')"
    by (simp add: needs_default_def)
  have t: "d ''title'' = Some (PStr title)"
    using safe_get_value [of movie "''title''" "PStr t"] nt title
    by (simp add: d details_of_fields)
  have dflt: "d key = Some (spec_default key)"
    if "key \<in> set detail_keys" "needs_default (movie key)" for key
  proof -
    from that nt have "key \<noteq> ''title''" by auto
    with details_of_key [OF that(1), of movie t] that(2) show ?thesis
      by (simp add: d safe_get_default)
  qed
  have val: "d key = movie key"
    if "key \<in> set detail_keys" "\<not> needs_default (movie key)" for key
    using details_of_key [OF that(1), of movie t]
      safe_get_value [of movie key "if key = ''title'' then PStr t else spec_default key"] that(2)
    by (simp add: d)
  have keys: "key \<in> set detail_keys" if "d key = Some v" for key v
  proof -
    from that have "key \<in> dom (details_of movie t)" by (auto simp: d)
    then show ?thesis by (simp only: dom_details_of)
  qed
  have clean: "v \<noteq> PNone \<and> v \<noteq> PFloat FNaN" if "d key = Some v" for key v
  proof -
    have "(if key = ''title'' then PStr t else spec_default key) \<noteq> PNone"
      "(if key = ''title'' then PStr t else spec_default key) \<noteq> PFloat FNaN"
      by (simp_all add: spec_default_def)
    from safe_get_clean [OF this, of movie key] details_of_key [OF keys [OF that], of movie t] that
    show ?thesis by (simp add: d)
  qed
  have raw: "(v = PFloat32 FNaN \<or> v = PNA \<or> v = PNaT) \<and> movie key = Some v"
    if "d key = Some v \<and> null_or_nan v" for key v
  proof -
    from that have dv: "d key = Some v" and nn: "null_or_nan v" by simp_all
    from clean [OF dv] nn have kind: "v = PFloat32 FNaN \<or> v = PNA \<or> v = PNaT"
      by (auto simp: null_or_nan_def)
    have "\<not> needs_default (movie key)"
    proof
      assume "needs_default (movie key)"
      from dflt [OF keys [OF dv] this] dv have "v = spec_default key" by simp
      moreover have "\<not> null_or_nan (spec_default key)"
        by (simp add: spec_default_def null_or_nan_def)
      ultimately show False using nn by simp
    qed
    from val [OF keys [OF dv] this] dv kind show ?thesis by simp
  qed
  from movie d title t dflt val clean raw dom_details_of [of movie t] show ?thesis
    by blast
qed

text \<open>
  The row of \<^verbatim>\<open>Heat\<close> has a NaN runtime of Python's \<^verbatim>\<open>float\<close>, an empty cast, no overview, an
  empty tuple of genres and no \<^verbatim>\<open>vote_average\<close> column: each field holds its default.
\<close>

lemma details_of_resolved_heat:
  "get_movie_details no_regex ex_engine ''heat'' = Inr (Some (details_of heat ''heat'')) \<and>
   dom (details_of heat ''heat'') = set detail_keys \<and>
   heat ''runtime'' = Some (PFloat FNaN) \<and>
   details_of heat ''heat'' ''title'' = Some (PStr ''Heat'') \<and>
   details_of heat ''heat'' ''runtime'' = Some (PStr ''N/A'') \<and>
   details_of heat ''heat'' ''vote_average'' = Some (PStr ''N/A'') \<and>
   details_of heat ''heat'' ''cast'' = Some (PList []) \<and>
   details_of heat ''heat'' ''genres'' = Some (PList []) \<and>
   details_of heat ''heat'' ''overview'' = Some (PStr ''No overview available.'') \<and>
   details_of heat ''heat'' ''directors'' = Some (PList [PStr ''Michael Mann''])"
proof -
  have f: "filter (\<lambda>r. title_lower r = Some (lower ''heat'')) (movies ex_engine) = [heat]"
    by (simp add: ex_engine_def title_lower_examples lower_heat)
  have g: "get_movie_details no_regex ex_engine ''heat'' = Inr (Some (details_of heat ''heat''))"
    by (rule get_movie_details_exact [OF f])
  from details_of_resolved [OF g]
  have "dom (details_of heat ''heat'') = set detail_keys"
    by blast
  moreover have "heat ''runtime'' = Some (PFloat FNaN)"
    by (simp add: heat_def)
  moreover have "details_of heat ''heat'' ''title'' = Some (PStr ''Heat'')"
    "details_of heat ''heat'' ''runtime'' = Some (PStr ''N/A'')"
    "details_of heat ''heat'' ''vote_average'' = Some (PStr ''N/A'')"
    "details_of heat ''heat'' ''cast'' = Some (PList [])"
    "details_of heat ''heat'' ''genres'' = Some (PList [])"
    "details_of heat ''heat'' ''overview'' = Some (PStr ''No overview available.'')"
    "details_of heat ''heat'' ''directors'' = Some (PList [PStr ''Michael Mann''])"
    by (simp_all add: details_of_fields safe_get_def heat_def)
  ultimately show ?thesis using g by simp
qed

text \<open>
  C5. The claim fails on a NaN that is not an instance of Python's \<^verbatim>\<open>float\<close>. The catalog's
  row of \<^verbatim>\<open>Heat\<close> has a \<^verbatim>\<open>float32\<close> NaN as runtime, \<^verbatim>\<open>pd.NA\<close> as year and a \<^verbatim>\<open>float64\<close> NaN as
  \<^verbatim>\<open>vote_average\<close>. Resolving \<^verbatim>\<open>Heat\<close> gives a record whose \<^verbatim>\<open>vote_average\<close> is the default
  \<^verbatim>\<open>'N/A'\<close>, while its runtime is the raw NaN and its year the raw \<^verbatim>\<open>pd.NA\<close>.
\<close>

theorem numpy_nan_returned_raw:
  "heat_numpy ''runtime'' = Some (PFloat32 FNaN) \<and>
   heat_numpy ''year'' = Some PNA \<and>
   heat_numpy ''vote_average'' = Some (PFloat FNaN) \<and>
   get_movie_details no_regex ex_numpy_engine ''Heat'' =
     Inr (Some (details_of heat_numpy ''Heat'')) \<and>
   details_of heat_numpy ''Heat'' ''vote_average'' = Some (PStr ''N/A'') \<and>
   details_of heat_numpy ''Heat'' ''runtime'' = Some (PFloat32 FNaN) \<and>
   details_of heat_numpy ''Heat'' ''year'' = Some PNA \<and>
   null_or_nan (PFloat32 FNaN) \<and> null_or_nan PNA"
proof -
  have cells: "heat_numpy ''runtime'' = Some (PFloat32 FNaN)" "heat_numpy ''year'' = Some PNA"
    "heat_numpy ''vote_average'' = Some (PFloat FNaN)"
    by (simp_all add: heat_numpy_def)
  have "title_lower heat_numpy = Some ''heat''"
    by (simp add: title_lower_def heat_numpy_def lower_heat)
  then have f: "filter (\<lambda>r. title_lower r = Some (lower ''Heat'')) (movies ex_numpy_engine) =
                  [heat_numpy]"
    by (simp add: ex_numpy_engine_def lower_heat)
  have g: "get_movie_details no_regex ex_numpy_engine ''Heat'' =
             Inr (Some (details_of heat_numpy ''Heat''))"
    by (rule get_movie_details_exact [OF f])
  have fields: "details_of heat_numpy ''Heat'' ''vote_average'' = Some (PStr ''N/A'')"
    "details_of heat_numpy ''Heat'' ''runtime'' = Some (PFloat32 FNaN)"
    "details_of heat_numpy ''Heat'' ''year'' = Some PNA"
    by (simp_all add: details_of_fields safe_get_def heat_numpy_def)
  from cells g fields show ?thesis
    by (simp add: null_or_nan_def)
qed

end
